theory Spec2Isabelle
  imports Main
begin

section \<open>Python strings\<close>

text \<open>
  A Python \<open>str\<close> is a sequence of code points. It is modelled as a HOL \<open>string\<close>,
  each \<open>char\<close> standing for the code point of the same number, so the model covers
  the strings whose code points are below 256. On that range \<open>str.isspace\<close>,
  \<open>str.strip\<close> and \<open>str.lower\<close> are the functions below: the white space
  characters are U+0009..U+000D, U+001C..U+0020, U+0085 and U+00A0; the upper case
  letters are A..Z and U+00C0..U+00DE without U+00D7, each 32 below its lower case
  form.
\<close>

definition isspace :: "char \<Rightarrow> bool" where
  "isspace c = (let n = (of_char c :: nat) in
     (9 \<le> n \<and> n \<le> 13) \<or> (28 \<le> n \<and> n \<le> 32) \<or> n = 133 \<or> n = 160)"

definition strip :: "string \<Rightarrow> string" where
  "strip s = rev (dropWhile isspace (rev (dropWhile isspace s)))"

definition lower_char :: "char \<Rightarrow> char" where
  "lower_char c = (let n = (of_char c :: nat) in
     if (65 \<le> n \<and> n \<le> 90) \<or> (192 \<le> n \<and> n \<le> 222 \<and> n \<noteq> 215)
     then char_of (n + 32) else c)"

definition lower :: "string \<Rightarrow> string" where
  "lower s = map lower_char s"

definition startswith :: "string \<Rightarrow> string \<Rightarrow> bool" where
  "startswith s p = (take (length p) s = p)"

section \<open>Exceptions, collaborators and the observable trace\<close>

text \<open>
  The exceptions that travel through the pipeline. \<open>validate_sql\<close> raises
  \<open>ValueError\<close> with one of two fixed messages (the specification calls both
  \<open>UnsafeStatement\<close>); \<open>AttributeError\<close> is what reading a field of
  \<open>None\<close> raises; \<open>ContentError\<close> is the \<open>Exception\<close> that
  \<open>_generate_content_with_schema\<close> raises around the text of the client's own
  error; \<open>StoreError\<close> is whatever the sqlite driver raised, and
  \<open>ClientError\<close> what the construction of the model client raised, each with
  its text.
\<close>

datatype exc =
    ValueError_only_select
  | ValueError_single_statement
  | AttributeError
  | ContentError string
  | StoreError string
  | ClientError string

text \<open>
  The schema description interpolated into the prompt is the list of the
  \<open>(name, type)\<close> pairs of \<open>PRAGMA table_info\<close>, one line each under a fixed
  header. The two prompt templates are fixed texts around their arguments, so a
  prompt is given by its template and its arguments.
\<close>

type_synonym schema_str = "(string \<times> string) list"

datatype prompt = Sql_prompt schema_str string | Intent_prompt string

text \<open>
  What one call of the model client gives: it raises, or its \<open>parsed\<close> field is
  \<open>None\<close> (the response did not fit the requested shape), or it is an object
  of the requested shape, whose single string field is kept.
\<close>

datatype llm_outcome = Call_raised string | Parsed_none | Parsed string

text \<open>
  The collaborators. \<open>'w\<close> is the state of the world outside the process (the
  database file, the remote model), \<open>'r\<close> the value \<open>fetchall\<close> returns. A
  store call gives the text of the exception it raised (\<open>Inl\<close>) or its result.
\<close>

record ('w, 'r) collab =
  client_init :: "'w \<Rightarrow> string option"
  generate_content :: "prompt \<Rightarrow> 'w \<Rightarrow> llm_outcome \<times> 'w"
  table_info :: "string \<Rightarrow> 'w \<Rightarrow> (string + schema_str) \<times> 'w"
  execute :: "string \<Rightarrow> 'w \<Rightarrow> (string + 'r) \<times> 'w"

text \<open>
  What \<open>click.echo\<close> prints. The four fixed messages keep the names of their
  constants in \<open>cli.py\<close>; the other lines are a fixed label around a value.
  \<open>Nl l\<close> is the text of \<open>l\<close> followed by a line feed, as \<open>demo\<close> prints it.
\<close>

datatype 'r line =
    EMPTY_QUESTION_MSG
  | INFORMAL_MSG
  | HELP_MSG
  | UNKNOWN_INTENT_MSG
  | Echo_sql string
  | Echo_invalid_sql
  | Echo_result 'r
  | Echo_answer 'r
  | Echo_error exc
  | Echo_question string
  | Nl "'r line"

text \<open>A record of the audit log \<open>llm_results.log\<close>: the question and what was derived from it.\<close>

datatype audit_record = Sql_record string string | Intent_record string string

text \<open>
  Everything the process does that can be observed from outside, in the order in
  which it happens: calls of the model, the three kinds of store round trip (each
  with the text sent), appends to the audit log, and printed lines. Messages to the
  process-wide logger are diagnostics on the error stream and are left out.
\<close>

datatype 'r event =
    Llm_call prompt
  | Schema_lookup string
  | Dry_run string
  | Run_query string
  | Audit audit_record
  | Echo "'r line"

record ('w, 'r) state =
  world :: 'w
  trace :: "'r event list"

definition emit :: "'r event \<Rightarrow> ('w, 'r) state \<Rightarrow> ('w, 'r) state" where
  "emit ev s = s\<lparr>trace := trace s @ [ev]\<rparr>"

definition echo :: "'r line \<Rightarrow> ('w, 'r) state \<Rightarrow> ('w, 'r) state" where
  "echo l s = emit (Echo l) s"

text \<open>Projections of a trace: what was printed, what went to the audit log, what was run.\<close>

definition lines_of :: "'r event list \<Rightarrow> 'r line list" where
  "lines_of es = concat (map (\<lambda>ev. case ev of Echo l \<Rightarrow> [l] | _ \<Rightarrow> []) es)"

definition records_of :: "'r event list \<Rightarrow> audit_record list" where
  "records_of es = concat (map (\<lambda>ev. case ev of Audit a \<Rightarrow> [a] | _ \<Rightarrow> []) es)"

definition run_queries :: "'r event list \<Rightarrow> string list" where
  "run_queries es = concat (map (\<lambda>ev. case ev of Run_query t \<Rightarrow> [t] | _ \<Rightarrow> []) es)"

definition dry_runs :: "'r event list \<Rightarrow> string list" where
  "dry_runs es = concat (map (\<lambda>ev. case ev of Dry_run t \<Rightarrow> [t] | _ \<Rightarrow> []) es)"

definition is_llm_call :: "'r event \<Rightarrow> bool" where
  "is_llm_call ev = (case ev of Llm_call _ \<Rightarrow> True | _ \<Rightarrow> False)"

definition is_store_call :: "'r event \<Rightarrow> bool" where
  "is_store_call ev =
     (case ev of Schema_lookup _ \<Rightarrow> True | Dry_run _ \<Rightarrow> True | Run_query _ \<Rightarrow> True | _ \<Rightarrow> False)"

definition stdout :: "('w, 'r) state \<Rightarrow> 'r line list" where
  "stdout s = lines_of (trace s)"

definition audit_log :: "('w, 'r) state \<Rightarrow> audit_record list" where
  "audit_log s = records_of (trace s)"

text \<open>The events a run from \<open>s\<close> to \<open>s'\<close> added.\<close>

definition new_events :: "('w, 'r) state \<Rightarrow> ('w, 'r) state \<Rightarrow> 'r event list" where
  "new_events s s' = drop (length (trace s)) (trace s')"

section \<open>db.py\<close>

definition TABLE_NAME :: string where
  "TABLE_NAME = ''freelancer_earnings''"

definition query_db ::
  "('w, 'r) collab \<Rightarrow> string \<Rightarrow> ('w, 'r) state \<Rightarrow> (exc + 'r) \<times> ('w, 'r) state" where
  "query_db env query s =
     (case execute env query (world s) of
        (Inl e, w) \<Rightarrow> (Inl (StoreError e), emit (Run_query query) (s\<lparr>world := w\<rparr>))
      | (Inr result, w) \<Rightarrow> (Inr result, emit (Run_query query) (s\<lparr>world := w\<rparr>)))"

definition get_table_schema_str ::
  "('w, 'r) collab \<Rightarrow> string \<Rightarrow> ('w, 'r) state \<Rightarrow> (exc + schema_str) \<times> ('w, 'r) state" where
  "get_table_schema_str env table_name s =
     (case table_info env table_name (world s) of
        (Inl e, w) \<Rightarrow> (Inl (StoreError e), emit (Schema_lookup table_name) (s\<lparr>world := w\<rparr>))
      | (Inr columns, w) \<Rightarrow> (Inr columns, emit (Schema_lookup table_name) (s\<lparr>world := w\<rparr>)))"

text \<open>
  \<open>validate_sql\<close>: the two textual rules look at a trimmed, lower-cased copy; the
  dry run sends \<open>EXPLAIN\<close> followed by the text as it was given. Both
  \<open>except\<close> branches of the source raise again what they caught.
\<close>

definition validate_sql ::
  "('w, 'r) collab \<Rightarrow> string \<Rightarrow> ('w, 'r) state \<Rightarrow> (exc + bool) \<times> ('w, 'r) state" where
  "validate_sql env sql s =
     (let sql_stripped = lower (strip sql) in
      if \<not> startswith sql_stripped ''select'' then (Inl ValueError_only_select, s)
      else if CHR '';'' \<in> set (butlast sql_stripped) then (Inl ValueError_single_statement, s)
      else
        (let explain_sql = ''EXPLAIN '' @ sql in
         case execute env explain_sql (world s) of
           (Inl e, w) \<Rightarrow> (Inl (StoreError e), emit (Dry_run explain_sql) (s\<lparr>world := w\<rparr>))
         | (Inr _, w) \<Rightarrow> (Inr True, emit (Dry_run explain_sql) (s\<lparr>world := w\<rparr>))))"

section \<open>llm.py\<close>

definition generate_content_with_schema ::
  "('w, 'r) collab \<Rightarrow> prompt \<Rightarrow> ('w, 'r) state \<Rightarrow> (exc + string option) \<times> ('w, 'r) state" where
  "generate_content_with_schema env p s =
     (case generate_content env p (world s) of
        (Call_raised e, w) \<Rightarrow> (Inl (ContentError e), emit (Llm_call p) (s\<lparr>world := w\<rparr>))
      | (Parsed_none, w) \<Rightarrow> (Inr None, emit (Llm_call p) (s\<lparr>world := w\<rparr>))
      | (Parsed v, w) \<Rightarrow> (Inr (Some v), emit (Llm_call p) (s\<lparr>world := w\<rparr>)))"

text \<open>
  \<open>generate_sql\<close>: the schema lookup stands before the \<open>try\<close>, so what it
  raises leaves the function. Inside the \<open>try\<close>, a raising call and a
  \<open>None\<close> result (whose field access raises \<open>AttributeError\<close>) both end in
  the \<open>except\<close> branch, which returns the fallback text.
\<close>

definition generate_sql ::
  "('w, 'r) collab \<Rightarrow> string \<Rightarrow> ('w, 'r) state \<Rightarrow> (exc + string) \<times> ('w, 'r) state" where
  "generate_sql env question s =
     (case get_table_schema_str env TABLE_NAME s of
        (Inl e, s1) \<Rightarrow> (Inl e, s1)
      | (Inr schema, s1) \<Rightarrow>
          (case generate_content_with_schema env (Sql_prompt schema question) s1 of
             (Inl e, s2) \<Rightarrow> (Inr ''SELECT 1'', s2)
           | (Inr None, s2) \<Rightarrow> (Inr ''SELECT 1'', s2)
           | (Inr (Some result_sql), s2) \<Rightarrow>
               (let sql = strip result_sql in
                (Inr sql, emit (Audit (Sql_record question sql)) s2))))"

definition detect_intent ::
  "('w, 'r) collab \<Rightarrow> string \<Rightarrow> ('w, 'r) state \<Rightarrow> (exc + string) \<times> ('w, 'r) state" where
  "detect_intent env question s =
     (case generate_content_with_schema env (Intent_prompt question) s of
        (Inl e, s1) \<Rightarrow> (Inr ''unknown'', s1)
      | (Inr None, s1) \<Rightarrow> (Inr ''unknown'', s1)
      | (Inr (Some result_intent), s1) \<Rightarrow>
          (let intent = lower (strip result_intent) in
           (Inr intent, emit (Audit (Intent_record question intent)) s1)))"

definition get_llm_client :: "('w, 'r) collab \<Rightarrow> ('w, 'r) state \<Rightarrow> exc + unit" where
  "get_llm_client env s =
     (case client_init env (world s) of Some e \<Rightarrow> Inl (ClientError e) | None \<Rightarrow> Inr ())"

section \<open>cli.py\<close>

text \<open>
  Each command is its blank check followed by a \<open>try\<close> block; the block is a
  function of its own (\<open>ask_try\<close>, \<open>answer_try\<close>) whose \<open>Inl\<close> result is the
  exception that reaches the outer \<open>except\<close>, which prints it.
\<close>

definition ask_try ::
  "('w, 'r) collab \<Rightarrow> string \<Rightarrow> ('w, 'r) state \<Rightarrow> (exc + unit) \<times> ('w, 'r) state" where
  "ask_try env question s =
     (case get_llm_client env s of
        Inl e \<Rightarrow> (Inl e, s)
      | Inr _ \<Rightarrow>
     (case detect_intent env question s of
        (Inl e, s1) \<Rightarrow> (Inl e, s1)
      | (Inr intent, s1) \<Rightarrow>
          if intent = ''sql'' then
            (case generate_sql env question s1 of
               (Inl e, s2) \<Rightarrow> (Inl e, s2)
             | (Inr sql, s2) \<Rightarrow>
                 (case validate_sql env sql (echo (Echo_sql sql) s2) of
                    (Inl e, s3) \<Rightarrow> (Inr (), echo Echo_invalid_sql s3)
                  | (Inr _, s3) \<Rightarrow>
                      (case query_db env sql s3 of
                         (Inl e, s4) \<Rightarrow> (Inl e, s4)
                       | (Inr result, s4) \<Rightarrow> (Inr (), echo (Echo_result result) s4))))
          else if intent = ''smalltalk'' then (Inr (), echo INFORMAL_MSG s1)
          else if intent = ''help'' then (Inr (), echo HELP_MSG s1)
          else (Inr (), echo UNKNOWN_INTENT_MSG s1)))"

definition ask :: "('w, 'r) collab \<Rightarrow> string \<Rightarrow> ('w, 'r) state \<Rightarrow> ('w, 'r) state" where
  "ask env question s =
     (if strip question = [] then echo EMPTY_QUESTION_MSG s
      else case ask_try env question s of
             (Inl e, s') \<Rightarrow> echo (Echo_error e) s'
           | (Inr _, s') \<Rightarrow> s')"

definition answer_try ::
  "('w, 'r) collab \<Rightarrow> string \<Rightarrow> ('w, 'r) state \<Rightarrow> (exc + unit) \<times> ('w, 'r) state" where
  "answer_try env question s =
     (case get_llm_client env s of
        Inl e \<Rightarrow> (Inl e, s)
      | Inr _ \<Rightarrow>
     (case detect_intent env question s of
        (Inl e, s1) \<Rightarrow> (Inl e, s1)
      | (Inr intent, s1) \<Rightarrow>
          if intent = ''sql'' then
            (case generate_sql env question s1 of
               (Inl e, s2) \<Rightarrow> (Inl e, s2)
             | (Inr sql, s2) \<Rightarrow>
                 (case validate_sql env sql s2 of
                    (Inl e, s3) \<Rightarrow> (Inr (), echo Echo_invalid_sql s3)
                  | (Inr _, s3) \<Rightarrow>
                      (case query_db env sql s3 of
                         (Inl e, s4) \<Rightarrow> (Inl e, s4)
                       | (Inr result, s4) \<Rightarrow> (Inr (), echo (Echo_answer result) s4))))
          else if intent = ''smalltalk'' then (Inr (), echo INFORMAL_MSG s1)
          else if intent = ''help'' then (Inr (), echo HELP_MSG s1)
          else (Inr (), echo UNKNOWN_INTENT_MSG s1)))"

definition answer :: "('w, 'r) collab \<Rightarrow> string \<Rightarrow> ('w, 'r) state \<Rightarrow> ('w, 'r) state" where
  "answer env question s =
     (if strip question = [] then echo EMPTY_QUESTION_MSG s
      else case answer_try env question s of
             (Inl e, s') \<Rightarrow> echo (Echo_error e) s'
           | (Inr _, s') \<Rightarrow> s')"

text \<open>
  \<open>demo\<close>: the body of the loop for one question (\<open>demo_try\<close> is its \<open>try\<close>
  block), the loop, and the command. The source loops over a fixed list of ten
  questions, none of them blank, written in Cyrillic; the list is a parameter here.
  The client is built before the loop and outside any \<open>try\<close>.
\<close>

definition demo_try ::
  "('w, 'r) collab \<Rightarrow> string \<Rightarrow> ('w, 'r) state \<Rightarrow> (exc + unit) \<times> ('w, 'r) state" where
  "demo_try env q s =
     (case detect_intent env q s of
        (Inl e, s1) \<Rightarrow> (Inl e, s1)
      | (Inr intent, s1) \<Rightarrow>
          if intent = ''sql'' then
            (case generate_sql env q s1 of
               (Inl e, s2) \<Rightarrow> (Inl e, s2)
             | (Inr sql, s2) \<Rightarrow>
                 (case query_db env sql s2 of
                    (Inl e, s3) \<Rightarrow> (Inl e, s3)
                  | (Inr result, s3) \<Rightarrow> (Inr (), echo (Nl (Echo_answer result)) s3)))
          else if intent = ''smalltalk'' then (Inr (), echo (Nl INFORMAL_MSG) s1)
          else if intent = ''help'' then (Inr (), echo (Nl HELP_MSG) s1)
          else (Inr (), echo (Nl UNKNOWN_INTENT_MSG) s1))"

definition demo_question :: "('w, 'r) collab \<Rightarrow> string \<Rightarrow> ('w, 'r) state \<Rightarrow> ('w, 'r) state" where
  "demo_question env q s =
     (case demo_try env q (echo (Echo_question q) s) of
        (Inl e, s') \<Rightarrow> echo (Nl (Echo_error e)) s'
      | (Inr _, s') \<Rightarrow> s')"

fun demo_loop :: "('w, 'r) collab \<Rightarrow> string list \<Rightarrow> ('w, 'r) state \<Rightarrow> ('w, 'r) state" where
  "demo_loop env [] s = s"
| "demo_loop env (q # questions) s = demo_loop env questions (demo_question env q s)"

definition demo ::
  "('w, 'r) collab \<Rightarrow> string list \<Rightarrow> ('w, 'r) state \<Rightarrow> (exc + unit) \<times> ('w, 'r) state" where
  "demo env questions s =
     (case get_llm_client env s of
        Inl e \<Rightarrow> (Inl e, s)
      | Inr _ \<Rightarrow> (Inr (), demo_loop env questions s))"

section \<open>Test doubles\<close>

text \<open>
  Collaborators with fixed replies, in the manner of the \<open>DummyLLM\<close> of
  \<open>tests/test_db.py\<close>: the model answers the intent prompt with one reply and
  the SQL prompt with another, the schema lookup with \<open>columns\<close>, and the
  store answers each statement by \<open>store\<close>. The world has no state of its own.
  Rows are \<open>(text, number)\<close> pairs, as in the row \<open>('Data Entry', 5577)\<close> of the
  test data.
\<close>

type_synonym test_rows = "(string \<times> int) list"

definition stub_collab ::
  "llm_outcome \<Rightarrow> llm_outcome \<Rightarrow> string + schema_str \<Rightarrow> (string \<Rightarrow> string + test_rows) \<Rightarrow>
     (unit, test_rows) collab" where
  "stub_collab intent_reply sql_reply columns store =
     \<lparr>client_init = (\<lambda>w. None),
      generate_content =
        (\<lambda>p w. (case p of Intent_prompt _ \<Rightarrow> intent_reply | Sql_prompt _ _ \<Rightarrow> sql_reply, w)),
      table_info = (\<lambda>t w. (columns, w)),
      execute = (\<lambda>q w. (store q, w))\<rparr>"

definition initial_state :: "(unit, test_rows) state" where
  "initial_state = \<lparr>world = (), trace = []\<rparr>"

definition one_row_store :: "string \<Rightarrow> string + test_rows" where
  "one_row_store q = Inr [(''Data Entry'', 5577)]"

definition test_columns :: schema_str where
  "test_columns = [(''Freelancer_ID'', ''INTEGER''), (''Job_Category'', ''TEXT''),
     (''Earnings_USD'', ''INTEGER'')]"

text \<open>
  A question, the statement of the second end-to-end scenario, and five pairs of
  collaborators: a model that answers with that statement, one that answers with a
  \<open>DROP TABLE\<close>, one whose intent is outside the enumeration and whose SQL
  response is malformed, one whose SQL call raises, and a store that cannot be opened.
\<close>

definition test_question :: string where
  "test_question = ''What does freelancer 4 earn?''"

definition scenario_sql :: string where
  "scenario_sql =
     ''SELECT Job_Category, Earnings_USD FROM freelancer_earnings WHERE Freelancer_ID=4''"

definition scenario_llm :: "(unit, test_rows) collab" where
  "scenario_llm = stub_collab (Parsed ''sql'') (Parsed scenario_sql) (Inr test_columns) one_row_store"

definition drop_table_llm :: "(unit, test_rows) collab" where
  "drop_table_llm =
     stub_collab (Parsed ''sql'') (Parsed ''DROP TABLE freelancer_earnings'') (Inr test_columns)
       (\<lambda>q. Inr [])"

definition greeting_llm :: "(unit, test_rows) collab" where
  "greeting_llm = stub_collab (Parsed '' Greeting '') Parsed_none (Inr test_columns) one_row_store"

definition failing_llm :: "(unit, test_rows) collab" where
  "failing_llm =
     stub_collab (Parsed ''sql'') (Call_raised ''503 UNAVAILABLE'') (Inr test_columns) one_row_store"

definition no_database :: "(unit, test_rows) collab" where
  "no_database =
     stub_collab (Parsed ''sql'') (Parsed scenario_sql) (Inl ''unable to open database file'')
       (\<lambda>q. Inl ''unable to open database file'')"

section \<open>String facts\<close>

lemma dropWhile_all_iff: "(\<forall>c\<in>set (dropWhile P xs). P c) \<longleftrightarrow> (\<forall>c\<in>set xs. P c)"
  by (induction xs) auto

lemma strip_Nil_iff: "strip s = [] \<longleftrightarrow> (\<forall>c\<in>set s. isspace c)"
  by (simp add: strip_def dropWhile_all_iff)

lemma of_char_semicolon: "(of_char c :: nat) = 59 \<longleftrightarrow> c = CHR '';''"
proof -
  have "(of_char c :: nat) = of_char (CHR '';'') \<longleftrightarrow> c = CHR '';''"
    by (rule of_char_eq_iff)
  then show ?thesis by simp
qed

lemma lower_char_semicolon: "lower_char c = CHR '';'' \<longleftrightarrow> c = CHR '';''"
proof -
  have "(of_char (lower_char c) :: nat) = 59 \<longleftrightarrow> (of_char c :: nat) = 59"
    by (auto simp add: lower_char_def Let_def)
  then show ?thesis by (simp add: of_char_semicolon)
qed

lemma semicolon_lower: "CHR '';'' \<in> set (lower t) \<longleftrightarrow> CHR '';'' \<in> set t"
  by (induction t) (simp_all add: lower_def lower_char_semicolon eq_commute [of "CHR '';''"])

lemma semicolon_butlast_lower:
  "CHR '';'' \<in> set (butlast (lower t)) \<longleftrightarrow> CHR '';'' \<in> set (butlast t)"
proof -
  have "butlast (lower t) = lower (butlast t)"
    by (simp add: lower_def map_butlast)
  then show ?thesis by (simp add: semicolon_lower)
qed

section \<open>What each operation adds to the trace\<close>

lemma trace_emit: "trace (emit ev s) = trace s @ [ev]"
  by (simp add: emit_def)

lemma trace_echo: "trace (echo l s) = trace s @ [Echo l]"
  by (simp add: echo_def emit_def)

lemma world_echo: "world (echo l s) = world s"
  by (simp add: echo_def emit_def)

lemma lines_of_Nil: "lines_of [] = []"
  by (simp add: lines_of_def)

lemma lines_of_Cons:
  "lines_of (ev # es) = (case ev of Echo l \<Rightarrow> [l] | _ \<Rightarrow> []) @ lines_of es"
  by (simp add: lines_of_def)

lemma lines_of_append: "lines_of (es @ fs) = lines_of es @ lines_of fs"
  by (simp add: lines_of_def)

lemma records_of_Nil: "records_of [] = []"
  by (simp add: records_of_def)

lemma records_of_Cons:
  "records_of (ev # es) = (case ev of Audit a \<Rightarrow> [a] | _ \<Rightarrow> []) @ records_of es"
  by (simp add: records_of_def)

lemma records_of_append: "records_of (es @ fs) = records_of es @ records_of fs"
  by (simp add: records_of_def)

lemma run_queries_Nil: "run_queries [] = []"
  by (simp add: run_queries_def)

lemma run_queries_Cons:
  "run_queries (ev # es) = (case ev of Run_query t \<Rightarrow> [t] | _ \<Rightarrow> []) @ run_queries es"
  by (simp add: run_queries_def)

lemma run_queries_append: "run_queries (es @ fs) = run_queries es @ run_queries fs"
  by (simp add: run_queries_def)

lemma dry_runs_Nil: "dry_runs [] = []"
  by (simp add: dry_runs_def)

lemma dry_runs_Cons:
  "dry_runs (ev # es) = (case ev of Dry_run t \<Rightarrow> [t] | _ \<Rightarrow> []) @ dry_runs es"
  by (simp add: dry_runs_def)

lemma dry_runs_append: "dry_runs (es @ fs) = dry_runs es @ dry_runs fs"
  by (simp add: dry_runs_def)

lemmas projection_simps =
  lines_of_Nil lines_of_Cons lines_of_append records_of_Nil records_of_Cons records_of_append
  run_queries_Nil run_queries_Cons run_queries_append dry_runs_Nil dry_runs_Cons dry_runs_append

lemma query_db_trace: "trace (snd (query_db env q s)) = trace s @ [Run_query q]"
  by (simp add: query_db_def trace_emit split: prod.splits sum.splits)

lemma validate_sql_trace:
  "trace (snd (validate_sql env sql s)) = trace s @
     (if startswith (lower (strip sql)) ''select'' \<and> CHR '';'' \<notin> set (butlast (lower (strip sql)))
      then [Dry_run (''EXPLAIN '' @ sql)] else [])"
  by (simp add: validate_sql_def Let_def trace_emit split: prod.splits sum.splits)

lemma validate_sql_Inr:
  "validate_sql env sql s = (Inr ok, s') \<Longrightarrow>
     ok \<and> trace s' = trace s @ [Dry_run (''EXPLAIN '' @ sql)]"
  by (auto simp add: validate_sql_def Let_def trace_emit split: prod.splits sum.splits if_splits)

lemma generate_content_with_schema_trace:
  "trace (snd (generate_content_with_schema env p s)) = trace s @ [Llm_call p]"
  by (simp add: generate_content_with_schema_def trace_emit split: prod.splits llm_outcome.splits)

lemma get_table_schema_str_trace:
  "trace (snd (get_table_schema_str env t s)) = trace s @ [Schema_lookup t]"
  by (simp add: get_table_schema_str_def trace_emit split: prod.splits sum.splits)

lemma detect_intent_trace:
  "\<exists>es. trace (snd (detect_intent env q s)) = trace s @ es \<and>
     lines_of es = [] \<and> run_queries es = [] \<and> dry_runs es = []"
proof -
  obtain r s1 where g: "generate_content_with_schema env (Intent_prompt q) s = (r, s1)"
    by (cases "generate_content_with_schema env (Intent_prompt q) s")
  then have t: "trace s1 = trace s @ [Llm_call (Intent_prompt q)]"
    using generate_content_with_schema_trace [of env "Intent_prompt q" s] by simp
  show ?thesis
    using g t
    by (auto simp add: detect_intent_def Let_def trace_emit lines_of_def run_queries_def
        dry_runs_def split: sum.splits option.splits)
qed

lemma generate_sql_trace:
  "\<exists>es. trace (snd (generate_sql env q s)) = trace s @ es \<and>
     lines_of es = [] \<and> run_queries es = [] \<and> dry_runs es = []"
proof -
  obtain r s1 where g: "get_table_schema_str env TABLE_NAME s = (r, s1)"
    by (cases "get_table_schema_str env TABLE_NAME s")
  then have t: "trace s1 = trace s @ [Schema_lookup TABLE_NAME]"
    using get_table_schema_str_trace [of env TABLE_NAME s] by simp
  show ?thesis
  proof (cases r)
    case (Inl e)
    with g t show ?thesis
      by (simp add: generate_sql_def lines_of_def run_queries_def dry_runs_def)
  next
    case (Inr schema)
    obtain r2 s2 where h: "generate_content_with_schema env (Sql_prompt schema q) s1 = (r2, s2)"
      by (cases "generate_content_with_schema env (Sql_prompt schema q) s1")
    then have t2: "trace s2 = trace s1 @ [Llm_call (Sql_prompt schema q)]"
      using generate_content_with_schema_trace [of env "Sql_prompt schema q" s1] by simp
    show ?thesis
      using g Inr h t t2
      by (auto simp add: generate_sql_def Let_def trace_emit lines_of_def run_queries_def
          dry_runs_def split: sum.splits option.splits)
  qed
qed

lemma detect_intent_dest:
  "detect_intent env q s = (r, s') \<Longrightarrow>
     \<exists>es. trace s' = trace s @ es \<and> lines_of es = [] \<and> run_queries es = [] \<and> dry_runs es = []"
  using detect_intent_trace [of env q s] by simp

lemma generate_sql_dest:
  "generate_sql env q s = (r, s') \<Longrightarrow>
     \<exists>es. trace s' = trace s @ es \<and> lines_of es = [] \<and> run_queries es = [] \<and> dry_runs es = []"
  using generate_sql_trace [of env q s] by simp

lemma validate_sql_dest:
  "validate_sql env sql s = (r, s') \<Longrightarrow>
     \<exists>es. trace s' = trace s @ es \<and> lines_of es = [] \<and> run_queries es = []"
  using validate_sql_trace [of env sql s] by (simp add: lines_of_def run_queries_def)

lemma query_db_dest:
  "query_db env q s = (r, s') \<Longrightarrow> trace s' = trace s @ [Run_query q]"
  using query_db_trace [of env q s] by simp

section \<open>The paths of the commands\<close>

lemma ask_sql_path:
  assumes "strip question \<noteq> []" and "client_init env (world s) = None"
    and "detect_intent env question s = (Inr ''sql'', s1)"
    and "generate_sql env question s1 = (Inr sql, s2)"
  shows "ask env question s =
     (case validate_sql env sql (echo (Echo_sql sql) s2) of
        (Inl e, s3) \<Rightarrow> echo Echo_invalid_sql s3
      | (Inr ok, s3) \<Rightarrow>
          (case query_db env sql s3 of
             (Inl e, s4) \<Rightarrow> echo (Echo_error e) s4
           | (Inr result, s4) \<Rightarrow> echo (Echo_result result) s4))"
  using assms
  by (simp add: ask_def ask_try_def get_llm_client_def split: prod.splits sum.splits)

lemma answer_sql_path:
  assumes "strip question \<noteq> []" and "client_init env (world s) = None"
    and "detect_intent env question s = (Inr ''sql'', s1)"
    and "generate_sql env question s1 = (Inr sql, s2)"
  shows "answer env question s =
     (case validate_sql env sql s2 of
        (Inl e, s3) \<Rightarrow> echo Echo_invalid_sql s3
      | (Inr ok, s3) \<Rightarrow>
          (case query_db env sql s3 of
             (Inl e, s4) \<Rightarrow> echo (Echo_error e) s4
           | (Inr result, s4) \<Rightarrow> echo (Echo_answer result) s4))"
  using assms
  by (simp add: answer_def answer_try_def get_llm_client_def split: prod.splits sum.splits)

lemma answer_try_lines:
  "\<exists>es. trace (snd (answer_try env question s)) = trace s @ es \<and>
     (case fst (answer_try env question s) of
        Inl e \<Rightarrow> lines_of es = []
      | Inr _ \<Rightarrow> (\<exists>l. lines_of es = [l] \<and> (\<forall>t. l \<noteq> Echo_sql t)))"
proof (cases "client_init env (world s)")
  case (Some e)
  then show ?thesis
    by (simp add: answer_try_def get_llm_client_def projection_simps)
next
  case None
  obtain r1 s1 where d: "detect_intent env question s = (r1, s1)"
    by (cases "detect_intent env question s")
  then obtain es1 where es1: "trace s1 = trace s @ es1" "lines_of es1 = []"
    using detect_intent_dest by blast
  show ?thesis
  proof (cases r1)
    case (Inl e)
    with None d es1 show ?thesis
      by (simp add: answer_try_def get_llm_client_def)
  next
    case (Inr intent)
    show ?thesis
    proof (cases "intent = ''sql''")
      case False
      with None d es1 Inr show ?thesis
        by (simp add: answer_try_def get_llm_client_def trace_echo projection_simps)
    next
      case True
      obtain r2 s2 where g: "generate_sql env question s1 = (r2, s2)"
        by (cases "generate_sql env question s1")
      then obtain es2 where es2: "trace s2 = trace s1 @ es2" "lines_of es2 = []"
        using generate_sql_dest by blast
      show ?thesis
      proof (cases r2)
        case (Inl e)
        with None d es1 Inr True g es2 show ?thesis
          by (simp add: answer_try_def get_llm_client_def projection_simps)
      next
        case sql: (Inr sql)
        obtain r3 s3 where v: "validate_sql env sql s2 = (r3, s3)"
          by (cases "validate_sql env sql s2")
        then obtain es3 where es3: "trace s3 = trace s2 @ es3" "lines_of es3 = []"
          using validate_sql_dest by blast
        show ?thesis
        proof (cases r3)
          case (Inl e)
          with None d es1 Inr True g es2 sql v es3 show ?thesis
            by (simp add: answer_try_def get_llm_client_def trace_echo projection_simps)
        next
          case ok: (Inr ok)
          obtain r4 s4 where q: "query_db env sql s3 = (r4, s4)"
            by (cases "query_db env sql s3")
          then have t4: "trace s4 = trace s3 @ [Run_query sql]"
            by (rule query_db_dest)
          from None d es1 Inr True g es2 sql v es3 ok q t4 show ?thesis
            by (cases r4)
              (simp_all add: answer_try_def get_llm_client_def trace_echo projection_simps)
        qed
      qed
    qed
  qed
qed

lemma answer_one_line:
  "\<exists>l. lines_of (new_events s (answer env question s)) = [l] \<and> (\<forall>t. l \<noteq> Echo_sql t)"
proof (cases "strip question = []")
  case True
  then show ?thesis
    by (simp add: answer_def new_events_def trace_echo projection_simps)
next
  case False
  obtain r s' where a: "answer_try env question s = (r, s')"
    by (cases "answer_try env question s")
  then obtain es where es: "trace s' = trace s @ es"
    "case r of Inl e \<Rightarrow> lines_of es = []
       | Inr _ \<Rightarrow> (\<exists>l. lines_of es = [l] \<and> (\<forall>t. l \<noteq> Echo_sql t))"
    using answer_try_lines [of env question s] by auto
  show ?thesis
    using False a es
    by (cases r) (auto simp add: answer_def new_events_def trace_echo projection_simps)
qed

lemma detect_intent_Inr: "\<exists>intent s'. detect_intent env question s = (Inr intent, s')"
  by (auto simp add: detect_intent_def Let_def split: prod.splits sum.splits option.splits)

lemma detect_intent_failure:
  "fst (generate_content env (Intent_prompt question) (world s)) = Call_raised e \<or>
   fst (generate_content env (Intent_prompt question) (world s)) = Parsed_none \<Longrightarrow>
     fst (detect_intent env question s) = Inr ''unknown''"
  by (auto simp add: detect_intent_def generate_content_with_schema_def
      split: prod.splits llm_outcome.splits)

lemma rejected_not_run:
  assumes "strip question \<noteq> []" and "client_init env (world s) = None"
    and "detect_intent env question s = (Inr ''sql'', s1)"
    and "generate_sql env question s1 = (Inr sql, s2)"
  shows "validate_sql env sql (echo (Echo_sql sql) s2) = (Inl e, s3) \<Longrightarrow>
           run_queries (new_events s (ask env question s)) = []"
    and "validate_sql env sql s2 = (Inl e, s3) \<Longrightarrow>
           run_queries (new_events s (answer env question s)) = []"
proof -
  obtain es where es: "trace s1 = trace s @ es" "run_queries es = []"
    using detect_intent_dest [OF assms(3)] by blast
  obtain fs where fs: "trace s2 = trace s1 @ fs" "run_queries fs = []"
    using generate_sql_dest [OF assms(4)] by blast
  show "run_queries (new_events s (ask env question s)) = []"
    if v: "validate_sql env sql (echo (Echo_sql sql) s2) = (Inl e, s3)"
  proof -
    obtain vs where "trace s3 = trace (echo (Echo_sql sql) s2) @ vs" "run_queries vs = []"
      using validate_sql_dest [OF v] by blast
    moreover have "ask env question s = echo Echo_invalid_sql s3"
      using ask_sql_path [OF assms] v by simp
    ultimately show ?thesis
      using es fs by (simp add: new_events_def trace_echo projection_simps)
  qed
  show "run_queries (new_events s (answer env question s)) = []"
    if v: "validate_sql env sql s2 = (Inl e, s3)"
  proof -
    obtain vs where "trace s3 = trace s2 @ vs" "run_queries vs = []"
      using validate_sql_dest [OF v] by blast
    moreover have "answer env question s = echo Echo_invalid_sql s3"
      using answer_sql_path [OF assms] v by simp
    ultimately show ?thesis
      using es fs by (simp add: new_events_def trace_echo projection_simps)
  qed
qed

section \<open>The claims\<close>

subsection \<open>Validation before execution\<close>

text \<open>
  C1 (every executed statement has passed the validator; no path from generation to
  the store goes around it). \<open>ask\<close> and \<open>answer\<close> call \<open>validate_sql\<close>
  between \<open>generate_sql\<close> and \<open>query_db\<close> (lemma \<open>rejected_not_run\<close>), but
  \<open>demo\<close> hands the generated text to \<open>query_db\<close> directly. With a model that
  classifies a question as \<open>sql\<close> and answers \<open>DROP TABLE freelancer_earnings\<close>,
  a statement that \<open>validate_sql\<close> rejects, the run of \<open>demo\<close> on that question
  has no dry run and executes the statement, while \<open>ask\<close> and \<open>answer\<close> on the
  same question execute nothing.
\<close>

theorem demo_runs_unvalidated_statement:
  "fst (validate_sql drop_table_llm ''DROP TABLE freelancer_earnings'' initial_state) =
     Inl ValueError_only_select \<and>
   trace (snd (demo drop_table_llm [test_question] initial_state)) =
     [Echo (Echo_question test_question),
      Llm_call (Intent_prompt test_question),
      Audit (Intent_record test_question ''sql''),
      Schema_lookup TABLE_NAME,
      Llm_call (Sql_prompt test_columns test_question),
      Audit (Sql_record test_question ''DROP TABLE freelancer_earnings''),
      Run_query ''DROP TABLE freelancer_earnings'',
      Echo (Nl (Echo_answer []))] \<and>
   run_queries (trace (ask drop_table_llm test_question initial_state)) = [] \<and>
   run_queries (trace (answer drop_table_llm test_question initial_state)) = []"
  by code_simp

subsection \<open>The SQL generator\<close>

text \<open>
  The schema lookup of \<open>generate_sql\<close> stands before its guarded block: when the
  store cannot be opened, \<open>generate_sql\<close> raises the store's error to its caller
  and returns no statement.
\<close>

theorem generate_sql_raises_on_schema_failure:
  "generate_sql no_database test_question initial_state =
     (Inl (StoreError ''unable to open database file''),
      \<lparr>world = (), trace = [Schema_lookup TABLE_NAME]\<rparr>)"
  by code_simp

text \<open>
  C2, amended (the generator returns a statement instead of raising). Whenever the
  schema lookup succeeds, \<open>generate_sql\<close> returns a statement: the trimmed text of
  the model when the call gave an object of the requested shape, and the fixed text
  \<open>SELECT 1\<close> when the call raised or the response was malformed. When the schema
  lookup raises, \<open>generate_sql\<close> raises the same error.
\<close>

theorem generate_sql_fallback:
  "(\<forall>schema s1. get_table_schema_str env TABLE_NAME s = (Inr schema, s1) \<longrightarrow>
      (\<exists>sql. fst (generate_sql env question s) = Inr sql \<and>
         (case fst (generate_content env (Sql_prompt schema question) (world s1)) of
            Parsed v \<Rightarrow> sql = strip v
          | _ \<Rightarrow> sql = ''SELECT 1''))) \<and>
   (\<forall>e s1. get_table_schema_str env TABLE_NAME s = (Inl e, s1) \<longrightarrow>
      generate_sql env question s = (Inl e, s1))"
  by (auto simp add: generate_sql_def generate_content_with_schema_def Let_def
      split: prod.splits llm_outcome.splits)

text \<open>
  The theorem at three concrete inputs: a model whose call raises, a model whose
  response is malformed, and a store that cannot be opened.
\<close>

theorem generate_sql_fallback_witness:
  "fst (get_table_schema_str failing_llm TABLE_NAME initial_state) = Inr test_columns \<and>
   fst (generate_sql failing_llm test_question initial_state) = Inr ''SELECT 1'' \<and>
   fst (get_table_schema_str greeting_llm TABLE_NAME initial_state) = Inr test_columns \<and>
   fst (generate_sql greeting_llm test_question initial_state) = Inr ''SELECT 1'' \<and>
   fst (get_table_schema_str no_database TABLE_NAME initial_state) =
     Inl (StoreError ''unable to open database file'') \<and>
   fst (generate_sql no_database test_question initial_state) =
     Inl (StoreError ''unable to open database file'')"
proof -
  let ?f1 = "snd (get_table_schema_str failing_llm TABLE_NAME initial_state)"
  let ?g1 = "snd (get_table_schema_str greeting_llm TABLE_NAME initial_state)"
  let ?n1 = "snd (get_table_schema_str no_database TABLE_NAME initial_state)"
  have f: "get_table_schema_str failing_llm TABLE_NAME initial_state = (Inr test_columns, ?f1)"
    by (rule prod_eqI) (code_simp, simp)
  have fo: "fst (generate_content failing_llm (Sql_prompt test_columns test_question) (world ?f1)) =
      Call_raised ''503 UNAVAILABLE''"
    by code_simp
  have g: "get_table_schema_str greeting_llm TABLE_NAME initial_state = (Inr test_columns, ?g1)"
    by (rule prod_eqI) (code_simp, simp)
  have go: "fst (generate_content greeting_llm (Sql_prompt test_columns test_question) (world ?g1)) =
      Parsed_none"
    by code_simp
  have n: "get_table_schema_str no_database TABLE_NAME initial_state =
      (Inl (StoreError ''unable to open database file''), ?n1)"
    by (rule prod_eqI) (code_simp, simp)
  have a: "fst (generate_sql failing_llm test_question initial_state) = Inr ''SELECT 1''"
    using generate_sql_fallback [of failing_llm initial_state test_question] f fo by fastforce
  have b: "fst (generate_sql greeting_llm test_question initial_state) = Inr ''SELECT 1''"
    using generate_sql_fallback [of greeting_llm initial_state test_question] g go by fastforce
  have c: "fst (generate_sql no_database test_question initial_state) =
     Inl (StoreError ''unable to open database file'')"
    using generate_sql_fallback [of no_database initial_state test_question] n by fastforce
  have f': "fst (get_table_schema_str failing_llm TABLE_NAME initial_state) = Inr test_columns"
    by code_simp
  have g': "fst (get_table_schema_str greeting_llm TABLE_NAME initial_state) = Inr test_columns"
    by code_simp
  have n': "fst (get_table_schema_str no_database TABLE_NAME initial_state) =
     Inl (StoreError ''unable to open database file'')"
    by code_simp
  show ?thesis
    using f' g' n' a b c by simp
qed

text \<open>
  On the fallback path nothing reaches the audit log: with a model whose SQL call
  raises, \<open>generate_sql\<close> returns \<open>SELECT 1\<close> and the audit log stays empty.
\<close>

theorem generate_sql_fallback_not_audited:
  "fst (generate_sql failing_llm test_question initial_state) = Inr ''SELECT 1'' \<and>
   audit_log (snd (generate_sql failing_llm test_question initial_state)) = []"
  by code_simp

text \<open>
  C3, amended (what the generator appends to the audit log). An invocation of
  \<open>generate_sql\<close> appends one record, holding the question and the returned
  statement, exactly when it returns the text of the model; when it returns the
  fallback \<open>SELECT 1\<close> after a raising call or a malformed response, or when the
  schema lookup raises, it appends nothing.
\<close>

theorem generate_sql_audit_records:
  "get_table_schema_str env TABLE_NAME s = (r, s1) \<Longrightarrow>
     audit_log (snd (generate_sql env question s)) = audit_log s @
       (case r of
          Inl e \<Rightarrow> []
        | Inr schema \<Rightarrow>
            (case fst (generate_content env (Sql_prompt schema question) (world s1)) of
               Parsed v \<Rightarrow> [Sql_record question (strip v)]
             | _ \<Rightarrow> []))"
proof -
  assume g: "get_table_schema_str env TABLE_NAME s = (r, s1)"
  then have t: "trace s1 = trace s @ [Schema_lookup TABLE_NAME]"
    using get_table_schema_str_trace [of env TABLE_NAME s] by simp
  show ?thesis
  proof (cases r)
    case (Inl e)
    with g t show ?thesis
      by (simp add: generate_sql_def audit_log_def projection_simps)
  next
    case (Inr schema)
    with g t show ?thesis
      by (auto simp add: generate_sql_def generate_content_with_schema_def Let_def audit_log_def
          trace_emit projection_simps split: prod.splits llm_outcome.splits)
  qed
qed

text \<open>
  The theorem at two concrete inputs: a model that answers with a statement, and a
  model whose response is malformed.
\<close>

theorem generate_sql_audit_records_witness:
  "audit_log initial_state = [] \<and>
   audit_log (snd (generate_sql scenario_llm test_question initial_state)) =
     [Sql_record test_question scenario_sql] \<and>
   audit_log (snd (generate_sql greeting_llm test_question initial_state)) = []"
proof -
  let ?s1 = "snd (get_table_schema_str scenario_llm TABLE_NAME initial_state)"
  let ?g1 = "snd (get_table_schema_str greeting_llm TABLE_NAME initial_state)"
  have e: "audit_log initial_state = []"
    by code_simp
  have s: "get_table_schema_str scenario_llm TABLE_NAME initial_state = (Inr test_columns, ?s1)"
    by (rule prod_eqI) (code_simp, simp)
  have so: "fst (generate_content scenario_llm (Sql_prompt test_columns test_question) (world ?s1)) =
      Parsed scenario_sql"
    by code_simp
  have st: "strip scenario_sql = scenario_sql"
    by code_simp
  have g: "get_table_schema_str greeting_llm TABLE_NAME initial_state = (Inr test_columns, ?g1)"
    by (rule prod_eqI) (code_simp, simp)
  have go: "fst (generate_content greeting_llm (Sql_prompt test_columns test_question) (world ?g1)) =
      Parsed_none"
    by code_simp
  show ?thesis
    using e generate_sql_audit_records [OF s, of test_question] so st generate_sql_audit_records [OF g, of test_question] go by simp
qed

subsection \<open>The intent classifier\<close>

text \<open>
  C4 (the classifier never raises and its result is one of \<open>sql\<close>,
  \<open>smalltalk\<close>, \<open>help\<close>, \<open>unknown\<close>). \<open>detect_intent\<close> never raises
  (lemma \<open>detect_intent_Inr\<close>) and gives \<open>unknown\<close> when the call raises or the
  response is malformed (lemma \<open>detect_intent_failure\<close>), but it returns the text of
  the model, trimmed and lower-cased, without comparing it with the enumeration:
  for the model output \<open>" Greeting "\<close> the result is \<open>greeting\<close>.
\<close>

theorem detect_intent_returns_other_string:
  "fst (detect_intent greeting_llm test_question initial_state) = Inr ''greeting'' \<and>
   ''greeting'' \<notin> set [''sql'', ''smalltalk'', ''help'', ''unknown'']"
  by code_simp

subsection \<open>The safety validator\<close>

text \<open>
  C5 (statements that do not start with \<open>select\<close> are rejected). When the
  trimmed, lower-cased text of a statement does not start with \<open>select\<close>,
  \<open>validate_sql\<close> raises the \<open>ValueError\<close> of its first rule and leaves the
  state as it was; this holds in particular for an empty statement and for one made
  of white space only.
\<close>

theorem validate_sql_rejects_non_select:
  "(\<not> startswith (lower (strip sql)) ''select'' \<longrightarrow>
      validate_sql env sql s = (Inl ValueError_only_select, s)) \<and>
   ((\<forall>c\<in>set sql. isspace c) \<longrightarrow>
      validate_sql env sql s = (Inl ValueError_only_select, s))"
proof -
  have a: "\<not> startswith (lower (strip sql)) ''select'' \<Longrightarrow>
      validate_sql env sql s = (Inl ValueError_only_select, s)"
    by (simp add: validate_sql_def)
  have "(\<forall>c\<in>set sql. isspace c) \<Longrightarrow> \<not> startswith (lower (strip sql)) ''select''"
    using strip_Nil_iff [of sql] by (simp add: lower_def startswith_def)
  with a show ?thesis by blast
qed

text \<open>
  The theorem at a \<open>DROP TABLE\<close> statement and at a statement of three spaces.
\<close>

theorem validate_sql_rejects_non_select_witness:
  "\<not> startswith (lower (strip ''DROP TABLE freelancer_earnings'')) ''select'' \<and>
   list_all isspace ''   '' \<and>
   validate_sql scenario_llm ''DROP TABLE freelancer_earnings'' initial_state =
     (Inl ValueError_only_select, initial_state) \<and>
   validate_sql scenario_llm ''   '' initial_state = (Inl ValueError_only_select, initial_state)"
proof -
  have a: "\<not> startswith (lower (strip ''DROP TABLE freelancer_earnings'')) ''select''"
    by code_simp
  have b: "\<forall>c\<in>set ''   ''. isspace c"
    by (simp add: isspace_def)
  have c: "list_all isspace ''   ''"
    using b by (simp add: list_all_iff)
  show ?thesis
    using a b c
      validate_sql_rejects_non_select [of "''DROP TABLE freelancer_earnings''" scenario_llm initial_state]
      validate_sql_rejects_non_select [of "''   ''" scenario_llm initial_state]
    by simp
qed

text \<open>
  C6 (the separator rule). A statement whose trimmed text has a \<open>;\<close> anywhere
  before its last character is rejected with one of the two \<open>ValueError\<close>s, the
  state unchanged. A statement whose trimmed text is a text without \<open>;\<close> followed
  by one \<open>;\<close> is not rejected by the separator rule.
\<close>

theorem validate_sql_separator_rule:
  "(CHR '';'' \<in> set (butlast (strip sql)) \<longrightarrow>
      validate_sql env sql s = (Inl ValueError_only_select, s) \<or>
      validate_sql env sql s = (Inl ValueError_single_statement, s)) \<and>
   (strip sql = body @ '';'' \<and> CHR '';'' \<notin> set body \<longrightarrow>
      fst (validate_sql env sql s) \<noteq> Inl ValueError_single_statement)"
  by (auto simp add: validate_sql_def Let_def semicolon_butlast_lower split: prod.splits sum.splits)

text \<open>
  The theorem at a stacked statement, which is rejected by the separator rule, and at
  a statement with one trailing separator, which the validator accepts.
\<close>

theorem validate_sql_separator_rule_witness:
  "CHR '';'' \<in> set (butlast (strip ''SELECT 1; DROP TABLE t'')) \<and>
   strip ''SELECT 1; '' = ''SELECT 1'' @ '';'' \<and> CHR '';'' \<notin> set ''SELECT 1'' \<and>
   validate_sql scenario_llm ''SELECT 1; DROP TABLE t'' initial_state =
     (Inl ValueError_single_statement, initial_state) \<and>
   fst (validate_sql scenario_llm ''SELECT 1; '' initial_state) = Inr True"
proof -
  have a: "CHR '';'' \<in> set (butlast (strip ''SELECT 1; DROP TABLE t''))"
    by code_simp
  have b: "strip ''SELECT 1; '' = ''SELECT 1'' @ '';''"
    by code_simp
  have c: "CHR '';'' \<notin> set ''SELECT 1''"
    by simp
  have d: "validate_sql scenario_llm ''SELECT 1; DROP TABLE t'' initial_state \<noteq>
      (Inl ValueError_only_select, initial_state)"
    by code_simp
  have e: "fst (validate_sql scenario_llm ''SELECT 1; '' initial_state) = Inr True"
    by code_simp
  show ?thesis
    using a b c d e
      validate_sql_separator_rule [of "''SELECT 1; DROP TABLE t''" scenario_llm initial_state]
      validate_sql_separator_rule [of "''SELECT 1; ''" scenario_llm initial_state "''SELECT 1''"]
    by simp
qed

text \<open>
  C7 (no dry run for a statement that breaks the separator rule). For such a
  statement \<open>validate_sql\<close> raises and returns the state it was given, world and
  trace, so no store round trip was made; its outcome is the same whatever the
  collaborators are; and when the statement starts with \<open>select\<close> the error is the
  one of the separator rule.
\<close>

theorem validate_sql_separator_no_dry_run:
  "CHR '';'' \<in> set (butlast (strip sql)) \<Longrightarrow>
     isl (fst (validate_sql env sql s)) \<and> snd (validate_sql env sql s) = s \<and>
     validate_sql env' sql s = validate_sql env sql s \<and>
     (startswith (lower (strip sql)) ''select'' \<longrightarrow>
        fst (validate_sql env sql s) = Inl ValueError_single_statement)"
  by (simp add: validate_sql_def Let_def semicolon_butlast_lower)

text \<open>
  The theorem at the statement of the fourth end-to-end scenario, with a store that
  answers and with one that cannot be opened.
\<close>

theorem validate_sql_separator_no_dry_run_witness:
  "CHR '';'' \<in> set (butlast (strip
      ''SELECT * FROM freelancer_earnings; DROP TABLE freelancer_earnings'')) \<and>
   startswith (lower (strip
      ''SELECT * FROM freelancer_earnings; DROP TABLE freelancer_earnings'')) ''select'' \<and>
   validate_sql scenario_llm
      ''SELECT * FROM freelancer_earnings; DROP TABLE freelancer_earnings'' initial_state =
     (Inl ValueError_single_statement, initial_state) \<and>
   validate_sql no_database
      ''SELECT * FROM freelancer_earnings; DROP TABLE freelancer_earnings'' initial_state =
     (Inl ValueError_single_statement, initial_state)"
proof -
  let ?sql = "''SELECT * FROM freelancer_earnings; DROP TABLE freelancer_earnings''"
  have a: "CHR '';'' \<in> set (butlast (strip ?sql))"
    by code_simp
  have b: "startswith (lower (strip ?sql)) ''select''"
    by code_simp
  show ?thesis
    using a b validate_sql_separator_no_dry_run [OF a, of scenario_llm initial_state no_database]
    by (simp add: prod_eq_iff)
qed

subsection \<open>The commands\<close>

text \<open>
  C8 (the executed text is the candidate text). In \<open>ask\<close> and in \<open>answer\<close>,
  when the question is classified \<open>sql\<close>, the generator returns \<open>sql\<close> and the
  validator accepts it, the run makes exactly one dry run, of \<open>EXPLAIN\<close> followed
  by \<open>sql\<close> as it was returned, and exactly one execution, of \<open>sql\<close> as it was
  returned.
\<close>

theorem executed_text_is_candidate_text:
  assumes "strip question \<noteq> []" and "client_init env (world s) = None"
    and "detect_intent env question s = (Inr ''sql'', s1)"
    and "generate_sql env question s1 = (Inr sql, s2)"
  shows "(\<forall>ok s3. validate_sql env sql (echo (Echo_sql sql) s2) = (Inr ok, s3) \<longrightarrow>
            dry_runs (new_events s (ask env question s)) = [''EXPLAIN '' @ sql] \<and>
            run_queries (new_events s (ask env question s)) = [sql]) \<and>
         (\<forall>ok s3. validate_sql env sql s2 = (Inr ok, s3) \<longrightarrow>
            dry_runs (new_events s (answer env question s)) = [''EXPLAIN '' @ sql] \<and>
            run_queries (new_events s (answer env question s)) = [sql])"
proof -
  obtain es where es: "trace s1 = trace s @ es" "run_queries es = []" "dry_runs es = []"
    using detect_intent_trace [of env question s] assms(3) by auto
  obtain fs where fs: "trace s2 = trace s1 @ fs" "run_queries fs = []" "dry_runs fs = []"
    using generate_sql_trace [of env question s1] assms(4) by auto
  have ask_part: "dry_runs (new_events s (ask env question s)) = [''EXPLAIN '' @ sql] \<and>
      run_queries (new_events s (ask env question s)) = [sql]"
    if v: "validate_sql env sql (echo (Echo_sql sql) s2) = (Inr ok, s3)" for ok s3
  proof -
    have t3: "trace s3 = trace s @ es @ fs @ [Echo (Echo_sql sql), Dry_run (''EXPLAIN '' @ sql)]"
      using validate_sql_Inr [OF v] es fs by (simp add: trace_echo)
    obtain r s4 where q: "query_db env sql s3 = (r, s4)"
      by (cases "query_db env sql s3")
    then have t4: "trace s4 = trace s3 @ [Run_query sql]"
      using query_db_trace [of env sql s3] by simp
    have "ask env question s = (case r of Inl e \<Rightarrow> echo (Echo_error e) s4
        | Inr result \<Rightarrow> echo (Echo_result result) s4)"
      using ask_sql_path [OF assms] v q by simp
    then have "\<exists>l. trace (ask env question s) = trace s4 @ [Echo l]"
      by (cases r) (simp_all add: trace_echo)
    then obtain l where "new_events s (ask env question s) =
        es @ fs @ [Echo (Echo_sql sql), Dry_run (''EXPLAIN '' @ sql), Run_query sql, Echo l]"
      using t3 t4 by (auto simp add: new_events_def)
    then show ?thesis
      using es fs by (simp add: run_queries_append dry_runs_append)
        (simp add: run_queries_def dry_runs_def)
  qed
  have answer_part: "dry_runs (new_events s (answer env question s)) = [''EXPLAIN '' @ sql] \<and>
      run_queries (new_events s (answer env question s)) = [sql]"
    if v: "validate_sql env sql s2 = (Inr ok, s3)" for ok s3
  proof -
    have t3: "trace s3 = trace s @ es @ fs @ [Dry_run (''EXPLAIN '' @ sql)]"
      using validate_sql_Inr [OF v] es fs by simp
    obtain r s4 where q: "query_db env sql s3 = (r, s4)"
      by (cases "query_db env sql s3")
    then have t4: "trace s4 = trace s3 @ [Run_query sql]"
      using query_db_trace [of env sql s3] by simp
    have "answer env question s = (case r of Inl e \<Rightarrow> echo (Echo_error e) s4
        | Inr result \<Rightarrow> echo (Echo_answer result) s4)"
      using answer_sql_path [OF assms] v q by simp
    then have "\<exists>l. trace (answer env question s) = trace s4 @ [Echo l]"
      by (cases r) (simp_all add: trace_echo)
    then obtain l where "new_events s (answer env question s) =
        es @ fs @ [Dry_run (''EXPLAIN '' @ sql), Run_query sql, Echo l]"
      using t3 t4 by (auto simp add: new_events_def)
    then show ?thesis
      using es fs by (simp add: run_queries_append dry_runs_append)
        (simp add: run_queries_def dry_runs_def)
  qed
  from ask_part answer_part show ?thesis by blast
qed

text \<open>
  The theorem at the statement of the second end-to-end scenario, which differs from
  its trimmed, lower-cased copy.
\<close>

theorem executed_text_is_candidate_text_witness:
  "strip test_question \<noteq> [] \<and>
   fst (detect_intent scenario_llm test_question initial_state) = Inr ''sql'' \<and>
   scenario_sql \<noteq> lower (strip scenario_sql) \<and>
   dry_runs (new_events initial_state (ask scenario_llm test_question initial_state)) =
     [''EXPLAIN '' @ scenario_sql] \<and>
   run_queries (new_events initial_state (ask scenario_llm test_question initial_state)) =
     [scenario_sql] \<and>
   dry_runs (new_events initial_state (answer scenario_llm test_question initial_state)) =
     [''EXPLAIN '' @ scenario_sql] \<and>
   run_queries (new_events initial_state (answer scenario_llm test_question initial_state)) =
     [scenario_sql]"
proof -
  let ?s1 = "snd (detect_intent scenario_llm test_question initial_state)"
  let ?s2 = "snd (generate_sql scenario_llm test_question ?s1)"
  let ?s3 = "snd (validate_sql scenario_llm scenario_sql (echo (Echo_sql scenario_sql) ?s2))"
  let ?s3' = "snd (validate_sql scenario_llm scenario_sql ?s2)"
  have h1: "strip test_question \<noteq> []"
    by code_simp
  have h2: "client_init scenario_llm (world initial_state) = None"
    by code_simp
  have f3: "fst (detect_intent scenario_llm test_question initial_state) = Inr ''sql''"
    by code_simp
  have f4: "fst (generate_sql scenario_llm test_question ?s1) = Inr scenario_sql"
    by code_simp
  have f5: "fst (validate_sql scenario_llm scenario_sql (echo (Echo_sql scenario_sql) ?s2)) =
      Inr True"
    by code_simp
  have f6: "fst (validate_sql scenario_llm scenario_sql ?s2) = Inr True"
    by code_simp
  have n: "scenario_sql \<noteq> lower (strip scenario_sql)"
    by code_simp
  have h3: "detect_intent scenario_llm test_question initial_state = (Inr ''sql'', ?s1)"
    using f3 by (simp add: prod_eq_iff)
  have h4: "generate_sql scenario_llm test_question ?s1 = (Inr scenario_sql, ?s2)"
    using f4 by (simp add: prod_eq_iff)
  have h5: "validate_sql scenario_llm scenario_sql (echo (Echo_sql scenario_sql) ?s2) =
      (Inr True, ?s3)"
    using f5 by (simp add: prod_eq_iff)
  have h6: "validate_sql scenario_llm scenario_sql ?s2 = (Inr True, ?s3')"
    using f6 by (simp add: prod_eq_iff)
  show ?thesis
    using h1 f3 n h5 h6 executed_text_is_candidate_text [OF h1 h2 h3 h4] by blast
qed

text \<open>
  C9 (a blank question short-circuits). For a question that is empty or made of
  white space only, \<open>ask\<close> and \<open>answer\<close> print the blank-input message and do
  nothing else: the world is unchanged and the run has no model call and no store
  call.
\<close>

theorem blank_question_short_circuit:
  "\<forall>c\<in>set question. isspace c \<Longrightarrow>
     ask env question s = echo EMPTY_QUESTION_MSG s \<and>
     answer env question s = echo EMPTY_QUESTION_MSG s \<and>
     world (echo EMPTY_QUESTION_MSG s) = world s \<and>
     new_events s (echo EMPTY_QUESTION_MSG s) = [Echo EMPTY_QUESTION_MSG] \<and>
     filter is_llm_call (new_events s (echo EMPTY_QUESTION_MSG s)) = [] \<and>
     filter is_store_call (new_events s (echo EMPTY_QUESTION_MSG s)) = []"
  by (simp add: ask_def answer_def strip_Nil_iff world_echo trace_echo new_events_def
      is_llm_call_def is_store_call_def)

text \<open>
  The theorem at a question of three spaces.
\<close>

theorem blank_question_short_circuit_witness:
  "list_all isspace ''   '' \<and>
   ask no_database ''   '' initial_state = \<lparr>world = (), trace = [Echo EMPTY_QUESTION_MSG]\<rparr> \<and>
   answer no_database ''   '' initial_state = \<lparr>world = (), trace = [Echo EMPTY_QUESTION_MSG]\<rparr>"
proof -
  have a: "\<forall>c\<in>set ''   ''. isspace c"
    by (simp add: isspace_def)
  have b: "echo EMPTY_QUESTION_MSG initial_state =
      \<lparr>world = (), trace = [Echo EMPTY_QUESTION_MSG :: test_rows event]\<rparr>"
    by (simp add: echo_def emit_def initial_state_def)
  have c: "list_all isspace ''   ''"
    using a by (simp add: list_all_iff)
  show ?thesis
    using b c blank_question_short_circuit [OF a, of no_database initial_state] by simp
qed

text \<open>
  C10 (\<open>ask\<close> prints the generated SQL before validating it, \<open>answer\<close> never
  prints it). In \<open>ask\<close>, when the question is classified \<open>sql\<close> and the
  generator returns \<open>sql\<close>, the line with \<open>sql\<close> is the first event after
  generation, nothing was printed and no dry run was made before it, and when the
  validator then rejects \<open>sql\<close> the printed lines are that line and the
  invalid-SQL message. In \<open>answer\<close>, on the same path with validation and execution
  succeeding, the only printed line is the one with the result rows; and no run of
  \<open>answer\<close> prints a line with the generated SQL.
\<close>

theorem ask_prints_sql_answer_does_not:
  "(strip question \<noteq> [] \<and> client_init env (world s) = None \<and>
    detect_intent env question s = (Inr ''sql'', s1) \<and>
    generate_sql env question s1 = (Inr sql, s2) \<longrightarrow>
      (\<exists>rest. new_events s (ask env question s) = new_events s s2 @ Echo (Echo_sql sql) # rest) \<and>
      lines_of (new_events s s2) = [] \<and> dry_runs (new_events s s2) = [] \<and>
      (\<forall>e s3. validate_sql env sql (echo (Echo_sql sql) s2) = (Inl e, s3) \<longrightarrow>
         lines_of (new_events s (ask env question s)) = [Echo_sql sql, Echo_invalid_sql]) \<and>
      (\<forall>ok s3 result s4. validate_sql env sql s2 = (Inr ok, s3) \<and>
         query_db env sql s3 = (Inr result, s4) \<longrightarrow>
         lines_of (new_events s (answer env question s)) = [Echo_answer result])) \<and>
   (\<forall>t. Echo_sql t \<notin> set (lines_of (new_events s (answer env question s))))"
proof -
  have never: "\<forall>t. Echo_sql t \<notin> set (lines_of (new_events s (answer env question s)))"
    using answer_one_line [of s env question] by auto
  have path: "(\<exists>rest. new_events s (ask env question s) = new_events s s2 @ Echo (Echo_sql sql) # rest) \<and>
      lines_of (new_events s s2) = [] \<and> dry_runs (new_events s s2) = [] \<and>
      (\<forall>e s3. validate_sql env sql (echo (Echo_sql sql) s2) = (Inl e, s3) \<longrightarrow>
         lines_of (new_events s (ask env question s)) = [Echo_sql sql, Echo_invalid_sql]) \<and>
      (\<forall>ok s3 result s4. validate_sql env sql s2 = (Inr ok, s3) \<and>
         query_db env sql s3 = (Inr result, s4) \<longrightarrow>
         lines_of (new_events s (answer env question s)) = [Echo_answer result])"
    if h: "strip question \<noteq> []" "client_init env (world s) = None"
      "detect_intent env question s = (Inr ''sql'', s1)"
      "generate_sql env question s1 = (Inr sql, s2)"
  proof -
    obtain es where es: "trace s1 = trace s @ es" "lines_of es = []" "dry_runs es = []"
      using detect_intent_dest [OF h(3)] by blast
    obtain fs where fs: "trace s2 = trace s1 @ fs" "lines_of fs = []" "dry_runs fs = []"
      using generate_sql_dest [OF h(4)] by blast
    have n2: "new_events s s2 = es @ fs"
      using es fs by (simp add: new_events_def)
    obtain r3 s3 where v: "validate_sql env sql (echo (Echo_sql sql) s2) = (r3, s3)"
      by (cases "validate_sql env sql (echo (Echo_sql sql) s2)")
    then obtain vs where vs: "trace s3 = trace (echo (Echo_sql sql) s2) @ vs" "lines_of vs = []"
      using validate_sql_dest by blast
    obtain r4 s4 where q: "query_db env sql s3 = (r4, s4)"
      by (cases "query_db env sql s3")
    then have t4: "trace s4 = trace s3 @ [Run_query sql]"
      by (rule query_db_dest)
    have a: "ask env question s =
        (case r3 of Inl e \<Rightarrow> echo Echo_invalid_sql s3
         | Inr ok \<Rightarrow> (case r4 of Inl e \<Rightarrow> echo (Echo_error e) s4
             | Inr result \<Rightarrow> echo (Echo_result result) s4))"
      using ask_sql_path [OF h] v q by (cases r3) simp_all
    have first: "\<exists>rest. new_events s (ask env question s) = new_events s s2 @ Echo (Echo_sql sql) # rest"
      using a n2 es fs vs t4
      by (cases r3; cases r4) (simp_all add: new_events_def trace_echo)
    have rejected: "lines_of (new_events s (ask env question s)) = [Echo_sql sql, Echo_invalid_sql]"
      if "validate_sql env sql (echo (Echo_sql sql) s2) = (Inl e, s3')" for e s3'
      using that a v es fs vs
      by (simp add: new_events_def trace_echo projection_simps)
    have accepted: "lines_of (new_events s (answer env question s)) = [Echo_answer result]"
      if w: "validate_sql env sql s2 = (Inr ok, s3') \<and> query_db env sql s3' = (Inr result, s4')"
      for ok s3' result s4'
    proof -
      obtain ws where ws: "trace s3' = trace s2 @ ws" "lines_of ws = []"
        using validate_sql_dest [of env sql s2 "Inr ok" s3'] w by blast
      have "trace s4' = trace s3' @ [Run_query sql]"
        using w query_db_dest [of env sql s3' "Inr result" s4'] by simp
      moreover have "answer env question s = echo (Echo_answer result) s4'"
        using answer_sql_path [OF h] w by simp
      ultimately show ?thesis
        using es fs ws by (simp add: new_events_def trace_echo projection_simps)
    qed
    from first n2 es fs rejected accepted show ?thesis
      by (simp add: projection_simps) blast
  qed
  from never path show ?thesis by blast
qed

text \<open>
  The theorem at a model that answers \<open>DROP TABLE\<close>, which the validator rejects,
  and at the second end-to-end scenario.
\<close>

theorem ask_prints_sql_answer_does_not_witness:
  "strip test_question \<noteq> [] \<and>
   fst (detect_intent drop_table_llm test_question initial_state) = Inr ''sql'' \<and>
   isl (fst (validate_sql drop_table_llm ''DROP TABLE freelancer_earnings'' initial_state)) \<and>
   lines_of (new_events initial_state (ask drop_table_llm test_question initial_state)) =
     [Echo_sql ''DROP TABLE freelancer_earnings'', Echo_invalid_sql] \<and>
   lines_of (new_events initial_state (answer drop_table_llm test_question initial_state)) =
     [Echo_invalid_sql] \<and>
   lines_of (new_events initial_state (answer scenario_llm test_question initial_state)) =
     [Echo_answer [(''Data Entry'', 5577)]]"
proof -
  let ?d1 = "snd (detect_intent drop_table_llm test_question initial_state)"
  let ?d2 = "snd (generate_sql drop_table_llm test_question ?d1)"
  let ?drop = "''DROP TABLE freelancer_earnings''"
  let ?d3 = "snd (validate_sql drop_table_llm ?drop (echo (Echo_sql ?drop) ?d2))"
  let ?s1 = "snd (detect_intent scenario_llm test_question initial_state)"
  let ?s2 = "snd (generate_sql scenario_llm test_question ?s1)"
  let ?s3 = "snd (validate_sql scenario_llm scenario_sql ?s2)"
  let ?s4 = "snd (query_db scenario_llm scenario_sql ?s3)"
  have h1: "strip test_question \<noteq> []"
    by code_simp
  have d0: "client_init drop_table_llm (world initial_state) = None"
    by code_simp
  have d1: "detect_intent drop_table_llm test_question initial_state = (Inr ''sql'', ?d1)"
    by (rule prod_eqI) (code_simp, simp)
  have d2: "generate_sql drop_table_llm test_question ?d1 = (Inr ?drop, ?d2)"
    by (rule prod_eqI) (code_simp, simp)
  have d3: "validate_sql drop_table_llm ?drop (echo (Echo_sql ?drop) ?d2) =
      (Inl ValueError_only_select, ?d3)"
    by (rule prod_eqI) (code_simp, simp)
  have d4: "isl (fst (validate_sql drop_table_llm ?drop initial_state))"
    by code_simp
  have d5: "lines_of (new_events initial_state (answer drop_table_llm test_question initial_state)) =
     [Echo_invalid_sql]"
    by code_simp
  have s0: "client_init scenario_llm (world initial_state) = None"
    by code_simp
  have s1: "detect_intent scenario_llm test_question initial_state = (Inr ''sql'', ?s1)"
    by (rule prod_eqI) (code_simp, simp)
  have s2: "generate_sql scenario_llm test_question ?s1 = (Inr scenario_sql, ?s2)"
    by (rule prod_eqI) (code_simp, simp)
  have s3: "validate_sql scenario_llm scenario_sql ?s2 = (Inr True, ?s3)"
    by (rule prod_eqI) (code_simp, simp)
  have s4: "query_db scenario_llm scenario_sql ?s3 = (Inr [(''Data Entry'', 5577)], ?s4)"
    by (rule prod_eqI) (code_simp, simp)
  have rejected: "lines_of (new_events initial_state (ask drop_table_llm test_question initial_state)) =
     [Echo_sql ?drop, Echo_invalid_sql]"
    using ask_prints_sql_answer_does_not [of test_question drop_table_llm initial_state ?d1 ?drop ?d2] h1 d0 d1 d2 d3
    by blast
  have accepted: "lines_of (new_events initial_state (answer scenario_llm test_question initial_state)) =
     [Echo_answer [(''Data Entry'', 5577)]]"
    using ask_prints_sql_answer_does_not [of test_question scenario_llm initial_state ?s1 scenario_sql ?s2] h1 s0 s1 s2 s3 s4
    by blast
  have d1': "fst (detect_intent drop_table_llm test_question initial_state) = Inr ''sql''"
    by code_simp
  show ?thesis
    using h1 d1' d4 d5 rejected accepted by simp
qed

end
